theory Spec2Isabelle
  imports Main
begin

section \<open>Values and exceptions\<close>

text \<open>
  The program handles what \<^verbatim>\<open>response.json()\<close> returns: a Python value built from
  \<^verbatim>\<open>None\<close>, booleans, numbers, strings, lists and dicts. A \<open>JObj\<close> lists the items of
  an already parsed dict, so its keys are the dict's keys; numbers are never computed
  with, only passed on, and stay a type parameter.
\<close>

datatype 'n json =
    JNull
  | JBool bool
  | JNum 'n
  | JStr string
  | JArr "'n json list"
  | JObj "(string \<times> 'n json) list"

text \<open>
  The exceptions the two modules can meet. \<open>RequestException\<close> stands for
  \<^verbatim>\<open>requests.exceptions.RequestException\<close> and its transport subclasses
  (ConnectionError, Timeout, ...); none of the classes below is a subclass of
  \<^verbatim>\<open>KeyError\<close> except \<open>KeyError\<close> itself.
\<close>

datatype exn =
    KeyError
  | IndexError
  | TypeError
  | RequestException
  | JSONDecodeError

subsection \<open>Subscripting, slicing and iterating Python values\<close>

text \<open>\<^verbatim>\<open>v[k]\<close> for a string key \<open>k\<close>: only a dict accepts it.\<close>

fun getitem :: "'n json \<Rightarrow> string \<Rightarrow> exn + 'n json" where
  "getitem (JObj kvs) k = (case map_of kvs k of None \<Rightarrow> Inl KeyError | Some v \<Rightarrow> Inr v)"
| "getitem _ k = Inl TypeError"

text \<open>
  \<^verbatim>\<open>v[0]\<close>: the first element of a list or string, IndexError when it is empty; a
  dict parsed from JSON has string keys only, so the key \<open>0\<close> is missing.
\<close>

fun getitem0 :: "'n json \<Rightarrow> exn + 'n json" where
  "getitem0 (JArr []) = Inl IndexError"
| "getitem0 (JArr (x # xs)) = Inr x"
| "getitem0 (JStr []) = Inl IndexError"
| "getitem0 (JStr (c # cs)) = Inr (JStr [c])"
| "getitem0 (JObj kvs) = Inl KeyError"
| "getitem0 _ = Inl TypeError"

text \<open>
  \<^verbatim>\<open>xs[:n]\<close> on a sequence: no bounds check, and a negative \<open>n\<close> counts from the end.
\<close>

definition slice_to :: "'a list \<Rightarrow> int \<Rightarrow> 'a list" where
  "slice_to xs n = (if 0 \<le> n then take (nat n) xs else take (length xs - nat (- n)) xs)"

text \<open>
  \<^verbatim>\<open>v[:n]\<close> on a value. A dict takes the slice as a key: up to CPython 3.11 a slice
  is unhashable (TypeError), from 3.12 on it is hashable and the key is missing
  (KeyError); \<open>hashable_slices\<close> tells which interpreter runs.
\<close>

fun getslice :: "bool \<Rightarrow> 'n json \<Rightarrow> int \<Rightarrow> exn + 'n json" where
  "getslice hashable_slices (JArr xs) n = Inr (JArr (slice_to xs n))"
| "getslice hashable_slices (JStr s) n = Inr (JStr (slice_to s n))"
| "getslice hashable_slices (JObj kvs) n = Inl (if hashable_slices then KeyError else TypeError)"
| "getslice hashable_slices _ n = Inl TypeError"

text \<open>\<^verbatim>\<open>for entry in v\<close>: the elements of a list, the characters of a string, the keys of a dict.\<close>

fun iter :: "'n json \<Rightarrow> exn + 'n json list" where
  "iter (JArr xs) = Inr xs"
| "iter (JStr s) = Inr (map (\<lambda>c. JStr [c]) s)"
| "iter (JObj kvs) = Inr (map (\<lambda>kv. JStr (fst kv)) kvs)"
| "iter _ = Inl TypeError"

text \<open>A list comprehension \<^verbatim>\<open>[f(x) for x in xs]\<close>: the first exception ends it.\<close>

fun comprehension :: "('a \<Rightarrow> exn + 'b) \<Rightarrow> 'a list \<Rightarrow> exn + 'b list" where
  "comprehension f [] = Inr []"
| "comprehension f (x # xs) =
     (case f x of
        Inl e \<Rightarrow> Inl e
      | Inr y \<Rightarrow> (case comprehension f xs of Inl e \<Rightarrow> Inl e | Inr ys \<Rightarrow> Inr (y # ys)))"

section \<open>backend.py\<close>

subsection \<open>The credential\<close>

text \<open>
  Module level, lines 25-31. \<open>secrets_get\<close> is the outcome of
  \<^verbatim>\<open>st.secrets.get("API_KEY")\<close> (an exception, \<^verbatim>\<open>None\<close> or the stored string),
  \<open>environ\<close> the process environment after \<^verbatim>\<open>load_dotenv()\<close>.
\<close>

definition truthy :: "string option \<Rightarrow> bool" where
  "truthy v = (case v of None \<Rightarrow> False | Some s \<Rightarrow> s \<noteq> [])"

definition SECRET_API_KEY :: "'e + string option \<Rightarrow> string option" where
  "SECRET_API_KEY secrets_get = (case secrets_get of Inl e \<Rightarrow> None | Inr v \<Rightarrow> v)"

definition API_KEY :: "'e + string option \<Rightarrow> (string \<rightharpoonup> string) \<Rightarrow> string option" where
  "API_KEY secrets_get environ =
     (if truthy (SECRET_API_KEY secrets_get) then SECRET_API_KEY secrets_get
      else environ ''API_KEY'')"

subsection \<open>The HTTP collaborator\<close>

text \<open>
  A response as far as the program reads it: \<open>json_body\<close> is \<open>None\<close> when the body is
  not JSON. The status code is carried along; the program never reads it.
\<close>

record 'n response =
  status_code :: nat
  json_body :: "'n json option"

text \<open>
  The world outside: what the network answers to a GET of a URL, the GETs issued so
  far, and the interpreter's slice hashing.
\<close>

record 'n world =
  network :: "string \<Rightarrow> exn + 'n response"
  sent :: "string list"
  hashable_slices :: bool

definition requests_get :: "'n world \<Rightarrow> string \<Rightarrow> (exn + 'n response) \<times> 'n world" where
  "requests_get w url = (network w url, w\<lparr>sent := sent w @ [url]\<rparr>)"

definition response_json :: "'n response \<Rightarrow> exn + 'n json" where
  "response_json r = (case json_body r of None \<Rightarrow> Inl JSONDecodeError | Some v \<Rightarrow> Inr v)"

subsection \<open>get_data\<close>

text \<open>\<^verbatim>\<open>{API_KEY}\<close> in the f-string: \<^verbatim>\<open>str(None)\<close> is \<^verbatim>\<open>None\<close>.\<close>

definition format_key :: "string option \<Rightarrow> string" where
  "format_key k = (case k of None \<Rightarrow> ''None'' | Some s \<Rightarrow> s)"

definition forecast_url :: "string \<Rightarrow> string option \<Rightarrow> string" where
  "forecast_url place key =
     ''http://api.openweathermap.org/data/2.5/forecast?q='' @ place @
     ''&appid='' @ format_key key @ ''&units=metric''"

definition get_data ::
  "'n world \<Rightarrow> string option \<Rightarrow> string \<Rightarrow> int \<Rightarrow> (exn + 'n json) \<times> 'n world" where
  "get_data w key place forcast_days =
     (let url = forecast_url place key;
          (got, w') = requests_get w url
      in (case got of
            Inl e \<Rightarrow> Inl e
          | Inr response \<Rightarrow>
              (case response_json response of
                 Inl e \<Rightarrow> Inl e
               | Inr data \<Rightarrow>
                   (case getitem data ''list'' of
                      Inl e \<Rightarrow> Inl e
                    | Inr filtered_data \<Rightarrow>
                        (let nr_values = 8 * forcast_days
                         in getslice (hashable_slices w') filtered_data nr_values))),
          w'))"

section \<open>main.py\<close>

text \<open>
  What a run of the script puts on the page. The three input widgets are the
  arguments of \<open>run\<close>; the chart and the image grid are recorded with the sequences
  handed to them.
\<close>

datatype 'n ui =
    Title string
  | Subheader string int string
  | PlotlyChart "'n json list" "'n json list"
  | Image "string list" nat "'n json list"
  | Error string

subsection \<open>Temperature branch (lines 83-94)\<close>

definition temp_of :: "'n json \<Rightarrow> exn + 'n json" where
  "temp_of entry = (case getitem entry ''main'' of Inl e \<Rightarrow> Inl e | Inr m \<Rightarrow> getitem m ''temp'')"

definition dt_txt_of :: "'n json \<Rightarrow> exn + 'n json" where
  "dt_txt_of entry = getitem entry ''dt_txt''"

definition temperature_branch :: "'n json \<Rightarrow> exn + 'n ui" where
  "temperature_branch filtered_data =
     (case iter filtered_data of
        Inl e \<Rightarrow> Inl e
      | Inr entries \<Rightarrow>
          (case comprehension temp_of entries of
             Inl e \<Rightarrow> Inl e
           | Inr temperature \<Rightarrow>
               (case comprehension dt_txt_of entries of
                  Inl e \<Rightarrow> Inl e
                | Inr dates \<Rightarrow> Inr (PlotlyChart dates temperature))))"

subsection \<open>Sky branch (lines 115-133)\<close>

definition images :: "string \<rightharpoonup> string" where
  "images = map_of
     [(''Clear'', ''images/clear.png''),
      (''Clouds'', ''images/cloud.png''),
      (''Rain'', ''images/rain.png''),
      (''Snow'', ''images/snow.png'')]"

text \<open>
  \<^verbatim>\<open>images[condition]\<close>: a list or dict is unhashable; any other value that is not
  one of the four keys is a missing key.
\<close>

fun images_getitem :: "'n json \<Rightarrow> exn + string" where
  "images_getitem (JStr s) = (case images s of None \<Rightarrow> Inl KeyError | Some p \<Rightarrow> Inr p)"
| "images_getitem (JArr xs) = Inl TypeError"
| "images_getitem (JObj kvs) = Inl TypeError"
| "images_getitem _ = Inl KeyError"

definition sky_of :: "'n json \<Rightarrow> exn + 'n json" where
  "sky_of entry =
     (case getitem entry ''weather'' of
        Inl e \<Rightarrow> Inl e
      | Inr ws \<Rightarrow> (case getitem0 ws of Inl e \<Rightarrow> Inl e | Inr d \<Rightarrow> getitem d ''main''))"

definition sky_branch :: "'n json \<Rightarrow> exn + 'n ui" where
  "sky_branch filtered_data =
     (case iter filtered_data of
        Inl e \<Rightarrow> Inl e
      | Inr entries \<Rightarrow>
          (case comprehension sky_of entries of
             Inl e \<Rightarrow> Inl e
           | Inr sky \<Rightarrow>
               (case comprehension images_getitem sky of
                  Inl e \<Rightarrow> Inl e
                | Inr image_paths \<Rightarrow>
                    (case comprehension dt_txt_of entries of
                       Inl e \<Rightarrow> Inl e
                     | Inr caption \<Rightarrow> Inr (Image image_paths 115 caption)))))"

subsection \<open>The script\<close>

text \<open>
  The body of the \<^verbatim>\<open>try\<close> (lines 64-133): what it rendered, the exception that
  ended it if one did, and the world afterwards.
\<close>

definition try_body ::
  "'n world \<Rightarrow> string option \<Rightarrow> string \<Rightarrow> int \<Rightarrow> string \<Rightarrow> ('n ui list \<times> exn option) \<times> 'n world" where
  "try_body w key place days option =
     (let (got, w') = get_data w key place days
      in (case got of
            Inl e \<Rightarrow> ([], Some e)
          | Inr filtered_data \<Rightarrow>
              (case (if option = ''Temperature''
                     then map_sum id (\<lambda>u. [u]) (temperature_branch filtered_data)
                     else Inr []) of
                 Inl e \<Rightarrow> ([], Some e)
               | Inr shown \<Rightarrow>
                   (case (if option = ''Sky''
                          then map_sum id (\<lambda>u. [u]) (sky_branch filtered_data)
                          else Inr []) of
                      Inl e \<Rightarrow> (shown, Some e)
                    | Inr shown' \<Rightarrow> (shown @ shown', None))),
          w'))"

text \<open>
  One run of \<^verbatim>\<open>main.py\<close>. \<open>uncaught\<close> is the exception that left the script, if any:
  \<^verbatim>\<open>except KeyError\<close> stops a KeyError only.
\<close>

record 'n page =
  outputs :: "'n ui list"
  uncaught :: "exn option"
  after :: "'n world"

definition header :: "string \<Rightarrow> int \<Rightarrow> string \<Rightarrow> 'n ui list" where
  "header place days option =
     [Title ''Weather Forcast For The Next Days'', Subheader option days place]"

definition generic_error :: "'n ui" where
  "generic_error = Error ''City not found. Please try again.''"

definition run :: "'n world \<Rightarrow> string option \<Rightarrow> string \<Rightarrow> int \<Rightarrow> string \<Rightarrow> 'n page" where
  "run w key place days option =
     (if place \<noteq> [] then
        (let ((shown, raised), w') = try_body w key place days option
         in (case raised of
               None \<Rightarrow> \<lparr>outputs = header place days option @ shown, uncaught = None, after = w'\<rparr>
             | Some e \<Rightarrow>
                 (if e = KeyError
                  then \<lparr>outputs = header place days option @ shown @ [generic_error],
                        uncaught = None, after = w'\<rparr>
                  else \<lparr>outputs = header place days option @ shown,
                        uncaught = Some e, after = w'\<rparr>)))
      else \<lparr>outputs = header place days option, uncaught = None, after = w\<rparr>)"

section \<open>Sample worlds\<close>

text \<open>
  Concrete provider answers, shaped like the provider's documents: a forecast body with
  its \<open>list\<close>, entries with the fields the script reads, and a world whose network
  gives one fixed answer.
\<close>

definition world_answering :: "exn + nat response \<Rightarrow> nat world" where
  "world_answering answer = \<lparr>network = (\<lambda>url. answer), sent = [], hashable_slices = True\<rparr>"

definition forecast_body :: "nat json list \<Rightarrow> nat json" where
  "forecast_body samples = JObj [(''cod'', JStr ''200''), (''list'', JArr samples)]"

definition descriptor :: "string \<Rightarrow> nat json" where
  "descriptor category = JObj [(''id'', JNum 800), (''main'', JStr category)]"

definition forecast_entry :: "string \<Rightarrow> nat \<Rightarrow> nat json list \<Rightarrow> nat json" where
  "forecast_entry time temp descriptors =
     JObj [(''main'', JObj [(''temp'', JNum temp)]),
           (''weather'', JArr descriptors),
           (''dt_txt'', JStr time)]"

definition sample :: "nat \<Rightarrow> nat json" where
  "sample n = forecast_entry ''2025-09-17 12:00:00'' n [descriptor ''Clouds'']"

definition nine_samples :: "nat json list" where
  "nine_samples = map sample [0, 1, 2, 3, 4, 5, 6, 7, 8]"

definition forecast_response :: "nat \<Rightarrow> nat json list \<Rightarrow> nat response" where
  "forecast_response status samples =
     \<lparr>status_code = status, json_body = Some (forecast_body samples)\<rparr>"

definition not_found_response :: "nat response" where
  "not_found_response =
     \<lparr>status_code = 404,
      json_body = Some (JObj [(''cod'', JStr ''404''), (''message'', JStr ''city not found'')])\<rparr>"

definition clear_then_mist :: "nat json list" where
  "clear_then_mist =
     [forecast_entry ''2025-09-17 12:00:00'' 21 [descriptor ''Clear''],
      forecast_entry ''2025-09-17 15:00:00'' 19 [descriptor ''Mist'']]"

definition clear_then_nothing :: "nat json list" where
  "clear_then_nothing =
     [forecast_entry ''2025-09-17 12:00:00'' 21 [descriptor ''Clear''],
      forecast_entry ''2025-09-17 15:00:00'' 19 []]"

definition clear_then_rain :: "nat json list" where
  "clear_then_rain =
     [forecast_entry ''2025-09-17 12:00:00'' 21 [descriptor ''Clear''],
      forecast_entry ''2025-09-17 15:00:00'' 19 [descriptor ''Rain'']]"

section \<open>List comprehensions\<close>

lemma comprehension_Inr_iff: "comprehension f xs = Inr ys \<longleftrightarrow> map f xs = map Inr ys"
proof (induction xs arbitrary: ys)
  case Nil
  then show ?case by auto
next
  case (Cons x xs)
  show ?case
  proof (cases "f x")
    case (Inl e)
    then show ?thesis by (cases ys) auto
  next
    case (Inr y)
    show ?thesis
    proof (cases "comprehension f xs")
      case (Inl e)
      have "map f xs \<noteq> map Inr zs" for zs
        using Cons.IH [of zs] Inl by simp
      with Inl Inr show ?thesis by (cases ys) auto
    next
      case (Inr zs)
      then have "map f xs = map Inr zs"
        using Cons.IH [of zs] by simp
      with Inr \<open>f x = Inr y\<close> show ?thesis by (cases ys) (auto simp: inj_map_eq_map)
    qed
  qed
qed

lemma comprehension_one_kind_of_failure:
  assumes "\<forall>x \<in> set xs. f x = Inl e \<or> (\<exists>y. f x = Inr y)"
    and "\<exists>x \<in> set xs. f x = Inl e"
  shows "comprehension f xs = Inl e"
  using assms
proof (induction xs)
  case Nil
  then show ?case by simp
next
  case (Cons x xs)
  show ?case
  proof (cases "f x")
    case (Inl e')
    with Cons.prems(1) show ?thesis by auto
  next
    case (Inr y)
    with Cons.prems have "\<exists>x \<in> set xs. f x = Inl e" by auto
    moreover from Cons.prems(1) have "\<forall>x \<in> set xs. f x = Inl e \<or> (\<exists>y. f x = Inr y)" by simp
    ultimately have "comprehension f xs = Inl e" by (rule Cons.IH [rotated])
    with Inr show ?thesis by simp
  qed
qed

lemma comprehension_total:
  assumes "\<forall>x \<in> set xs. \<exists>y. f x = Inr y"
  shows "\<exists>ys. comprehension f xs = Inr ys"
  using assms by (induction xs) auto

lemma comprehension_of_map: "map f xs = map Inr ys \<Longrightarrow> comprehension f xs = Inr ys"
  by (simp add: comprehension_Inr_iff)


section \<open>The retriever\<close>

lemma get_data_sent:
  "snd (get_data w key place days) = w\<lparr>sent := sent w @ [forecast_url place key]\<rparr>"
  by (simp add: get_data_def requests_get_def Let_def)

lemma get_data_list:
  assumes "network w (forecast_url place key) = Inr r"
    and "json_body r = Some data"
    and "getitem data ''list'' = Inr (JArr samples)"
  shows "fst (get_data w key place days) = Inr (JArr (slice_to samples (8 * days)))"
  using assms by (simp add: get_data_def requests_get_def response_json_def Let_def)

text \<open>
  C1. When the provider answers with a document whose \<open>list\<close> is a sequence of
  samples, and \<open>days\<close> is between 1 and 5, \<open>get_data\<close> returns the first
  \<open>min (number of samples) (8 * days)\<close> samples: a prefix of the provider's list, element
  by element in the provider's order, shorter than \<open>8 * days\<close> exactly when the
  provider has fewer samples, and never padded.
\<close>

theorem get_data_window:
  assumes "network w (forecast_url place key) = Inr r"
    and "json_body r = Some data"
    and "getitem data ''list'' = Inr (JArr samples)"
    and "1 \<le> days" and "days \<le> 5"
  shows "fst (get_data w key place days) =
           Inr (JArr (take (min (length samples) (nat (8 * days))) samples))
         \<and> length (take (min (length samples) (nat (8 * days))) samples) =
           min (length samples) (nat (8 * days))
         \<and> (\<forall>i < min (length samples) (nat (8 * days)).
              take (min (length samples) (nat (8 * days))) samples ! i = samples ! i)"
  using assms get_data_list [OF assms(1-3), of days] by (simp add: slice_to_def min_def)

theorem get_data_window_witness:
  "fst (get_data (world_answering (Inr (forecast_response 200 nine_samples)))
         (Some ''k'') ''Tokyo'' 1) =
     Inr (JArr (map sample [0, 1, 2, 3, 4, 5, 6, 7]))
   \<and> fst (get_data (world_answering (Inr (forecast_response 200 nine_samples)))
         (Some ''k'') ''Tokyo'' 2) =
     Inr (JArr nine_samples)"
proof -
  have answer: "network (world_answering (Inr (forecast_response 200 nine_samples)))
      (forecast_url ''Tokyo'' (Some ''k'')) = Inr (forecast_response 200 nine_samples)"
    by (simp add: world_answering_def)
  have body: "json_body (forecast_response 200 nine_samples) = Some (forecast_body nine_samples)"
    by (simp add: forecast_response_def)
  have list: "getitem (forecast_body nine_samples) ''list'' = Inr (JArr nine_samples)"
    by (simp add: forecast_body_def)
  from get_data_window [OF answer body list, of 1] get_data_window [OF answer body list, of 2]
  show ?thesis by (simp add: nine_samples_def)
qed

text \<open>
  C9. Whatever the place, the day count, the credential and the network's answer,
  \<open>get_data\<close> issues exactly one GET: the log of requests grows by one URL, the fixed
  forecast endpoint whose query holds the place as given, the credential as given
  (\<open>None\<close> printed for an absent one) and \<open>units=metric\<close>. A failed request is not
  repeated.
\<close>

theorem get_data_single_get:
  "sent (snd (get_data w (Some k) place days)) =
     sent w @ [''http://api.openweathermap.org/data/2.5/forecast?q='' @ place @
               ''&appid='' @ k @ ''&units=metric'']
   \<and> sent (snd (get_data w None place days)) =
     sent w @ [''http://api.openweathermap.org/data/2.5/forecast?q='' @ place @
               ''&appid=None&units=metric'']"
  by (simp add: get_data_sent forecast_url_def format_key_def)

text \<open>
  C8. The credential is the secret when the secrets store yields a non-empty one,
  whatever the environment holds; when the store raises, has no entry or an empty one,
  it is the environment variable. It is an argument of \<open>get_data\<close>, computed before any
  call. When both sources are empty the credential is \<open>None\<close> and \<open>get_data\<close> still
  sends its GET, with \<open>appid=None\<close> in the query.
\<close>

theorem api_key_layered:
  "(s \<noteq> [] \<longrightarrow> API_KEY (Inr (Some s) :: 'e + string option) environ = Some s)
   \<and> API_KEY (Inl e :: 'e + string option) environ = environ ''API_KEY''
   \<and> API_KEY (Inr None :: 'e + string option) environ = environ ''API_KEY''
   \<and> API_KEY (Inr (Some []) :: 'e + string option) environ = environ ''API_KEY''
   \<and> (API_KEY (secrets_get :: 'e + string option) environ = None \<longrightarrow>
        sent (snd (get_data w (API_KEY secrets_get environ) place days)) =
          sent w @ [''http://api.openweathermap.org/data/2.5/forecast?q='' @ place @
                    ''&appid=None&units=metric''])"
  by (simp add: API_KEY_def SECRET_API_KEY_def truthy_def get_data_sent forecast_url_def
      format_key_def)

theorem api_key_layered_witness:
  "API_KEY (Inr (Some ''s3cret'') :: exn + string option) [''API_KEY'' \<mapsto> ''from-env''] =
     Some ''s3cret''
   \<and> API_KEY (Inr None :: exn + string option) [''API_KEY'' \<mapsto> ''from-env''] =
     Some ''from-env''
   \<and> API_KEY (Inl KeyError) Map.empty = None
   \<and> sent (snd (get_data (world_answering (Inl RequestException))
                   (API_KEY (Inl KeyError) Map.empty) ''Tokyo'' 1)) =
       [''http://api.openweathermap.org/data/2.5/forecast?q=Tokyo&appid=None&units=metric'']"
proof -
  have layered:
    "API_KEY (Inr (Some ''s3cret'') :: exn + string option) [''API_KEY'' \<mapsto> ''from-env''] =
       Some ''s3cret''
     \<and> API_KEY (Inr None :: exn + string option) [''API_KEY'' \<mapsto> ''from-env''] =
       Some ''from-env''"
    using api_key_layered [where s = "''s3cret''" and environ = "[''API_KEY'' \<mapsto> ''from-env'']"
        and e = KeyError and secrets_get = "Inl KeyError"
        and w = "world_answering (Inl RequestException)" and place = "''Tokyo''" and days = 1]
    by simp
  have absent:
    "API_KEY (Inl KeyError) Map.empty = None
     \<and> sent (snd (get_data (world_answering (Inl RequestException))
                     (API_KEY (Inl KeyError) Map.empty) ''Tokyo'' 1)) =
         [''http://api.openweathermap.org/data/2.5/forecast?q=Tokyo&appid=None&units=metric'']"
    using api_key_layered [where s = "''s3cret''" and environ = Map.empty and e = KeyError
        and secrets_get = "Inl KeyError" and w = "world_answering (Inl RequestException)"
        and place = "''Tokyo''" and days = 1]
    by (simp add: world_answering_def)
  from layered absent show ?thesis by blast
qed

section \<open>The script\<close>

lemma try_body_get_data_raises:
  assumes "fst (get_data w key place days) = Inl e"
  shows "try_body w key place days option = (([], Some e), snd (get_data w key place days))"
  using assms by (simp add: try_body_def split_beta)

lemma try_body_sky:
  assumes "fst (get_data w key place days) = Inr fd"
  shows "try_body w key place days ''Sky'' =
     ((case sky_branch fd of Inl e \<Rightarrow> ([], Some e) | Inr u \<Rightarrow> ([u], None)),
      snd (get_data w key place days))"
  using assms by (simp add: try_body_def split_beta split: sum.splits)

lemma try_body_temperature:
  assumes "fst (get_data w key place days) = Inr fd"
  shows "try_body w key place days ''Temperature'' =
     ((case temperature_branch fd of Inl e \<Rightarrow> ([], Some e) | Inr u \<Rightarrow> ([u], None)),
      snd (get_data w key place days))"
  using assms by (simp add: try_body_def split_beta split: sum.splits)

lemma try_body_after: "snd (try_body w key place days option) = snd (get_data w key place days)"
  by (simp add: try_body_def split_beta)

lemma run_handler:
  assumes "place \<noteq> []"
    and "try_body w key place days option = ((shown, Some e), w')"
  shows "run w key place days option =
     (if e = KeyError
      then \<lparr>outputs = header place days option @ shown @ [generic_error],
            uncaught = None, after = w'\<rparr>
      else \<lparr>outputs = header place days option @ shown, uncaught = Some e, after = w'\<rparr>)"
  using assms by (simp add: run_def)

lemma run_no_exception:
  assumes "place \<noteq> []"
    and "try_body w key place days option = ((shown, None), w')"
  shows "run w key place days option =
     \<lparr>outputs = header place days option @ shown, uncaught = None, after = w'\<rparr>"
  using assms by (simp add: run_def)

lemma run_after:
  "after (run w key place days option) =
     (if place \<noteq> [] then snd (get_data w key place days) else w)"
proof (cases "place = []")
  case True
  then show ?thesis by (simp add: run_def)
next
  case False
  obtain shown raised w' where t: "try_body w key place days option = ((shown, raised), w')"
    by (metis surj_pair)
  then have "w' = snd (get_data w key place days)"
    using try_body_after [of w key place days option] by simp
  with False t show ?thesis
    by (cases raised) (simp_all add: run_def)
qed

text \<open>
  C7. With an empty place the run only shows the title and the subheader, raises
  nothing and leaves the world as it was, for every day count and mode: \<open>get_data\<close> is
  not called. The log of requests is unchanged by a run exactly when the place is
  empty, so a fetch happens on a non-empty place and on nothing else.
\<close>

theorem run_empty_place:
  "run w key [] days option =
     \<lparr>outputs = [Title ''Weather Forcast For The Next Days'', Subheader option days []],
      uncaught = None, after = w\<rparr>
   \<and> (sent (after (run w key place days option)) = sent w) = (place = [])"
  by (simp add: run_after get_data_sent) (simp add: run_def header_def)

section \<open>Failures of the fetch\<close>

lemma get_data_transport_failure:
  assumes "network w (forecast_url place key) = Inl e"
  shows "fst (get_data w key place days) = Inl e"
  using assms by (simp add: get_data_def requests_get_def Let_def)

lemma get_data_body:
  assumes "network w (forecast_url place key) = Inr r"
  shows "fst (get_data w key place days) =
     (case json_body r of
        None \<Rightarrow> Inl JSONDecodeError
      | Some data \<Rightarrow>
          (case getitem data ''list'' of
             Inl e \<Rightarrow> Inl e
           | Inr filtered_data \<Rightarrow> getslice (hashable_slices w) filtered_data (8 * days)))"
  using assms
  by (auto simp: get_data_def requests_get_def response_json_def Let_def
      split: option.splits sum.splits)

lemma run_get_data_raises:
  assumes "place \<noteq> []" and "fst (get_data w key place days) = Inl e"
  shows "run w key place days option =
     (if e = KeyError
      then \<lparr>outputs = header place days option @ [generic_error], uncaught = None,
            after = snd (get_data w key place days)\<rparr>
      else \<lparr>outputs = header place days option, uncaught = Some e,
            after = snd (get_data w key place days)\<rparr>)"
  using run_handler [OF assms(1) try_body_get_data_raises [OF assms(2)]] by simp

lemma run_sky_raises:
  assumes "place \<noteq> []" and "fst (get_data w key place days) = Inr fd"
    and "sky_branch fd = Inl e"
  shows "run w key place days ''Sky'' =
     (if e = KeyError
      then \<lparr>outputs = header place days ''Sky'' @ [generic_error], uncaught = None,
            after = snd (get_data w key place days)\<rparr>
      else \<lparr>outputs = header place days ''Sky'', uncaught = Some e,
            after = snd (get_data w key place days)\<rparr>)"
proof -
  have "try_body w key place days ''Sky'' = (([], Some e), snd (get_data w key place days))"
    using try_body_sky [OF assms(2)] assms(3) by simp
  from run_handler [OF assms(1) this] show ?thesis by simp
qed

text \<open>
  C4 (as the code has it). A transport failure leaves \<open>get_data\<close> as the exception
  it is; a body whose \<open>list\<close> lookup raises makes \<open>get_data\<close> raise the same
  exception, and no partly built window is returned. An error document without a
  \<open>list\<close> key raises KeyError, and a run with a place then shows the generic error
  message and nothing else below the header. The HTTP status is never read: changing
  it alone never changes what \<open>get_data\<close> returns.
\<close>

theorem get_data_failures:
  "(network w (forecast_url place key) = Inl e \<longrightarrow> fst (get_data w key place days) = Inl e)
   \<and> (network w (forecast_url place key) = Inr r \<and> json_body r = Some data
        \<and> getitem data ''list'' = Inl e \<longrightarrow> fst (get_data w key place days) = Inl e)
   \<and> (network w (forecast_url place key) = Inr r \<and> json_body r = Some (JObj kvs)
        \<and> map_of kvs ''list'' = None \<longrightarrow>
          fst (get_data w key place days) = Inl KeyError
          \<and> (place \<noteq> [] \<longrightarrow>
               outputs (run w key place days option) = header place days option @ [generic_error]
               \<and> uncaught (run w key place days option) = None))
   \<and> (network w (forecast_url place key) = Inr r
        \<and> network w' (forecast_url place key) = Inr (r\<lparr>status_code := status\<rparr>)
        \<and> hashable_slices w' = hashable_slices w \<longrightarrow>
          fst (get_data w' key place days) = fst (get_data w key place days))"
proof -
  have a: "fst (get_data w key place days) = Inl e"
    if "network w (forecast_url place key) = Inl e"
    using that by (rule get_data_transport_failure)
  have b: "fst (get_data w key place days) = Inl e"
    if "network w (forecast_url place key) = Inr r" "json_body r = Some data"
      "getitem data ''list'' = Inl e"
    using get_data_body [OF that(1), of days] that(2,3) by simp
  have c: "fst (get_data w key place days) = Inl KeyError"
    if "network w (forecast_url place key) = Inr r" "json_body r = Some (JObj kvs)"
      "map_of kvs ''list'' = None"
    using get_data_body [OF that(1), of days] that(2,3) by simp
  have c': "outputs (run w key place days option) = header place days option @ [generic_error]
            \<and> uncaught (run w key place days option) = None"
    if "fst (get_data w key place days) = Inl KeyError" "place \<noteq> []"
    using run_get_data_raises [OF that(2) that(1), of option] by simp
  have d: "fst (get_data w' key place days) = fst (get_data w key place days)"
    if "network w (forecast_url place key) = Inr r"
      "network w' (forecast_url place key) = Inr (r\<lparr>status_code := status\<rparr>)"
      "hashable_slices w' = hashable_slices w"
    using get_data_body [OF that(1), of days] get_data_body [OF that(2), of days] that(3)
    by (simp split: option.splits sum.splits)
  from a b c c' d show ?thesis by blast
qed

theorem get_data_failures_witness:
  "fst (get_data (world_answering (Inl RequestException)) (Some ''k'') ''Atlantis'' 1) =
     Inl RequestException
   \<and> fst (get_data (world_answering (Inr not_found_response)) (Some ''k'') ''Atlantis'' 1) =
     Inl KeyError
   \<and> outputs (run (world_answering (Inr not_found_response)) (Some ''k'') ''Atlantis'' 1 ''Sky'') =
     [Title ''Weather Forcast For The Next Days'', Subheader ''Sky'' 1 ''Atlantis'',
      Error ''City not found. Please try again.'']
   \<and> uncaught (run (world_answering (Inr not_found_response)) (Some ''k'') ''Atlantis'' 1 ''Sky'') =
     None"
proof -
  have transport:
    "fst (get_data (world_answering (Inl RequestException)) (Some ''k'') ''Atlantis'' 1) =
       Inl RequestException"
    using get_data_failures [where w = "world_answering (Inl RequestException)"
        and place = "''Atlantis''" and key = "Some ''k''" and e = RequestException and days = 1]
    by (simp add: world_answering_def)
  have missing:
    "fst (get_data (world_answering (Inr not_found_response)) (Some ''k'') ''Atlantis'' 1) =
       Inl KeyError
     \<and> outputs (run (world_answering (Inr not_found_response)) (Some ''k'') ''Atlantis'' 1 ''Sky'') =
       header ''Atlantis'' 1 ''Sky'' @ [generic_error]
     \<and> uncaught (run (world_answering (Inr not_found_response)) (Some ''k'') ''Atlantis'' 1 ''Sky'') =
       None"
    using get_data_failures [where w = "world_answering (Inr not_found_response)"
        and place = "''Atlantis''" and key = "Some ''k''" and days = 1 and r = not_found_response
        and kvs = "[(''cod'', JStr ''404''), (''message'', JStr ''city not found'')]"
        and option = "''Sky''"]
    by (simp add: world_answering_def not_found_response_def)
  from transport missing show ?thesis
    by (simp add: header_def generic_error_def)
qed

text \<open>
  A response with status 503 whose body carries a \<open>list\<close> is returned as an ordinary
  window: a non-success status by itself does not make \<open>get_data\<close> raise.
\<close>

theorem get_data_ignores_status:
  "status_code (forecast_response 503 clear_then_mist) = 503
   \<and> fst (get_data (world_answering (Inr (forecast_response 503 clear_then_mist)))
            (Some ''k'') ''Tokyo'' 1) =
     Inr (JArr clear_then_mist)"
  by (simp add: get_data_def requests_get_def response_json_def world_answering_def
      forecast_response_def forecast_body_def clear_then_mist_def slice_to_def Let_def)

text \<open>
  C2. The handler of the script stops a KeyError only. When the request itself fails
  (\<open>requests.get\<close> raises), the exception leaves the script: the run shows the header
  and no error message.
\<close>

theorem run_transport_failure:
  "uncaught (run (world_answering (Inl RequestException)) (Some ''k'') ''Tokyo'' 1 ''Temperature'') =
     Some RequestException
   \<and> outputs (run (world_answering (Inl RequestException)) (Some ''k'') ''Tokyo'' 1 ''Temperature'') =
     [Title ''Weather Forcast For The Next Days'', Subheader ''Temperature'' 1 ''Tokyo'']"
  by (simp add: run_def try_body_def get_data_def requests_get_def world_answering_def header_def
      Let_def)

section \<open>Temperature mode\<close>




section \<open>Sky mode\<close>

lemma sky_branch_unfold:
  "sky_branch (JArr window) =
     (case comprehension sky_of window of
        Inl e \<Rightarrow> Inl e
      | Inr sky \<Rightarrow>
          (case comprehension images_getitem sky of
             Inl e \<Rightarrow> Inl e
           | Inr image_paths \<Rightarrow>
               (case comprehension dt_txt_of window of
                  Inl e \<Rightarrow> Inl e
                | Inr caption \<Rightarrow> Inr (Image image_paths 115 caption))))"
  by (simp add: sky_branch_def)

lemma sky_of_weather_list:
  assumes "getitem entry ''weather'' = Inr (JArr ds)"
  shows "sky_of entry = (case ds of [] \<Rightarrow> Inl IndexError | d # rest \<Rightarrow> getitem d ''main'')"
  using assms by (cases ds) (simp_all add: sky_of_def)

lemma images_getitem_JStr:
  "images_getitem (JStr c) = Inl KeyError \<or> (\<exists>p. images_getitem (JStr c) = Inr p)"
  by (cases "images c") simp_all

lemma images_getitem_mapped:
  "map images categories = map Some image_paths \<Longrightarrow>
     map images_getitem (map JStr categories) = map Inr image_paths"
proof (induction categories arbitrary: image_paths)
  case Nil
  then show ?case by simp
next
  case (Cons c cs)
  then obtain p ps where "image_paths = p # ps" "images c = Some p"
    "map images cs = map Some ps"
    by (cases image_paths) auto
  with Cons.IH [of ps] show ?case by simp
qed

text \<open>
  C6. The icon lookup of Sky mode answers for exactly the four categories Clear,
  Clouds, Rain and Snow, with four different icon files, and its answer depends on the
  category alone: the table is a constant of the script. When every entry of the
  window carries a category of the table, the image grid shows, entry by entry, the
  icon the table gives for the entry's category, with the entries' time texts as
  captions.
\<close>

theorem images_four_categories:
  "dom images = {''Clear'', ''Clouds'', ''Rain'', ''Snow''}
   \<and> images ''Clear'' = Some ''images/clear.png''
   \<and> images ''Clouds'' = Some ''images/cloud.png''
   \<and> images ''Rain'' = Some ''images/rain.png''
   \<and> images ''Snow'' = Some ''images/snow.png''
   \<and> distinct (map images [''Clear'', ''Clouds'', ''Rain'', ''Snow''])
   \<and> images_getitem (JStr ''Clear'' :: 'n json) = Inr ''images/clear.png''
   \<and> images_getitem (JStr ''Clouds'' :: 'n json) = Inr ''images/cloud.png''
   \<and> images_getitem (JStr ''Rain'' :: 'n json) = Inr ''images/rain.png''
   \<and> images_getitem (JStr ''Snow'' :: 'n json) = Inr ''images/snow.png''
   \<and> (\<exists>p. images_getitem (JStr c :: 'n json) = Inr p) =
       (c \<in> {''Clear'', ''Clouds'', ''Rain'', ''Snow''})
   \<and> (map sky_of (window :: 'n json list) = map (\<lambda>c. Inr (JStr c)) categories
        \<and> map images categories = map Some image_paths
        \<and> map dt_txt_of window = map Inr caption \<longrightarrow>
          sky_branch (JArr window) = Inr (Image image_paths 115 caption))"
proof -
  have table: "dom images = {''Clear'', ''Clouds'', ''Rain'', ''Snow''}
     \<and> images ''Clear'' = Some ''images/clear.png''
     \<and> images ''Clouds'' = Some ''images/cloud.png''
     \<and> images ''Rain'' = Some ''images/rain.png''
     \<and> images ''Snow'' = Some ''images/snow.png''
     \<and> distinct (map images [''Clear'', ''Clouds'', ''Rain'', ''Snow''])"
    by (auto simp: images_def dom_def split: if_splits)
  then have lookups:
    "images_getitem (JStr ''Clear'' :: 'n json) = Inr ''images/clear.png''"
    "images_getitem (JStr ''Clouds'' :: 'n json) = Inr ''images/cloud.png''"
    "images_getitem (JStr ''Rain'' :: 'n json) = Inr ''images/rain.png''"
    "images_getitem (JStr ''Snow'' :: 'n json) = Inr ''images/snow.png''"
    by simp_all
  have "(\<exists>p. images_getitem (JStr c :: 'n json) = Inr p) = (c \<in> dom images)"
    by (cases "images c") auto
  with table have exactly: "(\<exists>p. images_getitem (JStr c :: 'n json) = Inr p) =
       (c \<in> {''Clear'', ''Clouds'', ''Rain'', ''Snow''})"
    by simp
  have grid: "sky_branch (JArr window) = Inr (Image image_paths 115 caption)"
    if "map sky_of window = map (\<lambda>c. Inr (JStr c)) categories"
      "map images categories = map Some image_paths"
      "map dt_txt_of window = map Inr caption"
  proof -
    let ?sky = "map JStr categories :: 'n json list"
    have "map sky_of window = map Inr ?sky"
      using that(1) by simp
    then have "comprehension sky_of window = Inr ?sky"
      by (rule comprehension_of_map)
    moreover have "comprehension images_getitem ?sky = Inr image_paths"
      using images_getitem_mapped [OF that(2)] by (rule comprehension_of_map)
    moreover have "comprehension dt_txt_of window = Inr caption"
      using that(3) by (rule comprehension_of_map)
    ultimately show ?thesis
      by (simp add: sky_branch_unfold)
  qed
  from table lookups exactly grid show ?thesis by blast
qed

theorem images_four_categories_witness:
  "sky_branch (JArr clear_then_rain) =
     Inr (Image [''images/clear.png'', ''images/rain.png''] 115
            [JStr ''2025-09-17 12:00:00'', JStr ''2025-09-17 15:00:00''])"
proof -
  have sky: "map sky_of clear_then_rain = map (\<lambda>c. Inr (JStr c)) [''Clear'', ''Rain'']"
    by (simp add: clear_then_rain_def forecast_entry_def descriptor_def sky_of_def)
  have icons: "map images [''Clear'', ''Rain''] = map Some [''images/clear.png'', ''images/rain.png'']"
    by (simp add: images_def)
  have caption: "map dt_txt_of clear_then_rain =
      map Inr [JStr ''2025-09-17 12:00:00'', JStr ''2025-09-17 15:00:00'']"
    by (simp add: clear_then_rain_def forecast_entry_def dt_txt_of_def)
  from images_four_categories [where window = clear_then_rain and categories = "[''Clear'', ''Rain'']"
      and image_paths = "[''images/clear.png'', ''images/rain.png'']"
      and caption = "[JStr ''2025-09-17 12:00:00'', JStr ''2025-09-17 15:00:00'']"]
    sky icons caption
  show ?thesis by blast
qed

text \<open>
  C3 (as the code has it). When every entry of the window carries a category string
  and some category is outside the icon table, the icon lookup raises KeyError and the
  Sky branch ends there: no image grid is produced, with no entry dropped and no icon
  missing from a shown grid. The KeyError is caught by the handler of the script, so
  the run shows the generic error message below the header.
\<close>

theorem sky_unmapped_category:
  assumes "map sky_of (window :: 'n json list) = map (\<lambda>c. Inr (JStr c)) categories"
    and "\<exists>c \<in> set categories. images c = None"
  shows "sky_branch (JArr window) = Inl KeyError
         \<and> (place \<noteq> [] \<and> fst (get_data w key place days) = Inr (JArr window) \<longrightarrow>
              run w key place days ''Sky'' =
                \<lparr>outputs = header place days ''Sky'' @ [generic_error], uncaught = None,
                 after = snd (get_data w key place days)\<rparr>)"
proof -
  let ?sky = "map JStr categories :: 'n json list"
  have "map sky_of window = map Inr ?sky"
    using assms(1) by simp
  then have sky: "comprehension sky_of window = Inr ?sky"
    by (rule comprehension_of_map)
  have "comprehension images_getitem ?sky = Inl KeyError"
  proof (rule comprehension_one_kind_of_failure)
    show "\<forall>x \<in> set ?sky.
            images_getitem x = Inl KeyError \<or> (\<exists>y. images_getitem x = Inr y)"
      using images_getitem_JStr by auto
    from assms(2) obtain c where "c \<in> set categories" and "images c = None"
      by blast
    then have "JStr c \<in> set ?sky" and "images_getitem (JStr c :: 'n json) = Inl KeyError"
      by simp_all
    then show "\<exists>x \<in> set ?sky. images_getitem x = Inl KeyError"
      by blast
  qed
  with sky have raised: "sky_branch (JArr window) = Inl KeyError"
    by (simp add: sky_branch_unfold)
  have "run w key place days ''Sky'' =
          \<lparr>outputs = header place days ''Sky'' @ [generic_error], uncaught = None,
           after = snd (get_data w key place days)\<rparr>"
    if "place \<noteq> []" "fst (get_data w key place days) = Inr (JArr window)"
    using run_sky_raises [OF that raised] by simp
  with raised show ?thesis by blast
qed

theorem sky_unmapped_category_witness:
  "sky_branch (JArr clear_then_mist) = Inl KeyError
   \<and> run (world_answering (Inr (forecast_response 200 clear_then_mist))) (Some ''k'') ''Tokyo'' 1 ''Sky'' =
       \<lparr>outputs = [Title ''Weather Forcast For The Next Days'', Subheader ''Sky'' 1 ''Tokyo'',
                   Error ''City not found. Please try again.''],
        uncaught = None,
        after = snd (get_data (world_answering (Inr (forecast_response 200 clear_then_mist)))
                       (Some ''k'') ''Tokyo'' 1)\<rparr>"
proof -
  have shape: "map sky_of clear_then_mist = map (\<lambda>c. Inr (JStr c)) [''Clear'', ''Mist'']"
    by (simp add: clear_then_mist_def forecast_entry_def descriptor_def sky_of_def)
  have unmapped: "\<exists>c \<in> set [''Clear'', ''Mist'']. images c = None"
    by (simp add: images_def)
  have fetched:
    "fst (get_data (world_answering (Inr (forecast_response 200 clear_then_mist)))
           (Some ''k'') ''Tokyo'' 1) = Inr (JArr clear_then_mist)"
    by (simp add: get_data_def requests_get_def response_json_def world_answering_def
        forecast_response_def forecast_body_def clear_then_mist_def slice_to_def Let_def)
  from sky_unmapped_category [OF shape unmapped, of "''Tokyo''"
      "world_answering (Inr (forecast_response 200 clear_then_mist))" "Some ''k''" 1] fetched
  show ?thesis by (simp add: header_def generic_error_def)
qed

text \<open>
  A window with the category Mist: the exception does not leave the script; the page
  ends with the generic error message.
\<close>

theorem sky_mist_is_caught:
  "uncaught (run (world_answering (Inr (forecast_response 200 clear_then_mist)))
              (Some ''k'') ''Tokyo'' 1 ''Sky'') = None
   \<and> outputs (run (world_answering (Inr (forecast_response 200 clear_then_mist)))
              (Some ''k'') ''Tokyo'' 1 ''Sky'') =
       [Title ''Weather Forcast For The Next Days'', Subheader ''Sky'' 1 ''Tokyo'',
        Error ''City not found. Please try again.'']"
  by (simp add: run_def try_body_def get_data_def requests_get_def response_json_def
      world_answering_def forecast_response_def forecast_body_def clear_then_mist_def
      forecast_entry_def descriptor_def slice_to_def sky_branch_def sky_of_def images_def
      header_def generic_error_def Let_def)

lemma sky_of_shaped:
  assumes "\<exists>ds. getitem entry ''weather'' = Inr (JArr ds) \<and> (\<forall>d \<in> set ds. \<exists>c. getitem d ''main'' = Inr c)"
  shows "sky_of entry = Inl IndexError \<or> (\<exists>c. sky_of entry = Inr c)"
proof -
  from assms obtain ds where ds: "getitem entry ''weather'' = Inr (JArr ds)"
    and main: "\<forall>d \<in> set ds. \<exists>c. getitem d ''main'' = Inr c" by blast
  show ?thesis
    using sky_of_weather_list [OF ds] main by (cases ds) auto
qed

lemma sky_of_shaped_nonempty:
  assumes "\<exists>ds. getitem entry ''weather'' = Inr (JArr ds) \<and> (\<forall>d \<in> set ds. \<exists>c. getitem d ''main'' = Inr c)"
    and "getitem entry ''weather'' \<noteq> Inr (JArr [])"
  shows "\<exists>c. sky_of entry = Inr c"
proof -
  from assms(1) obtain ds where ds: "getitem entry ''weather'' = Inr (JArr ds)"
    and main: "\<forall>d \<in> set ds. \<exists>c. getitem d ''main'' = Inr c" by blast
  with assms(2) have "ds \<noteq> []" by auto
  then show ?thesis
    using sky_of_weather_list [OF ds] main by (cases ds) auto
qed

text \<open>
  C10. Take a window whose entries each carry a weather descriptor list. If some list
  is empty, the category extraction raises IndexError, the Sky branch raises it, and a
  run leaves the script with IndexError uncaught: the page shows the header and no
  error message. The extraction returns a list of categories exactly when no entry's
  descriptor list is empty.
\<close>

theorem sky_empty_weather_list:
  assumes "\<forall>entry \<in> set window. \<exists>ds. getitem entry ''weather'' = Inr (JArr ds)
             \<and> (\<forall>d \<in> set ds. \<exists>c. getitem d ''main'' = Inr c)"
  shows "((\<exists>entry \<in> set window. getitem entry ''weather'' = Inr (JArr [])) \<longrightarrow>
            comprehension sky_of window = Inl IndexError
            \<and> sky_branch (JArr window) = Inl IndexError
            \<and> (place \<noteq> [] \<and> fst (get_data w key place days) = Inr (JArr window) \<longrightarrow>
                 run w key place days ''Sky'' =
                   \<lparr>outputs = header place days ''Sky'', uncaught = Some IndexError,
                    after = snd (get_data w key place days)\<rparr>))
         \<and> ((\<exists>sky. comprehension sky_of window = Inr sky) =
              (\<forall>entry \<in> set window. getitem entry ''weather'' \<noteq> Inr (JArr [])))"
proof -
  have either: "\<forall>entry \<in> set window. sky_of entry = Inl IndexError \<or> (\<exists>c. sky_of entry = Inr c)"
    using assms sky_of_shaped by blast
  have fails: "comprehension sky_of window = Inl IndexError"
    if "\<exists>entry \<in> set window. getitem entry ''weather'' = Inr (JArr [])"
  proof (rule comprehension_one_kind_of_failure [OF either])
    from that obtain entry where "entry \<in> set window" "getitem entry ''weather'' = Inr (JArr [])"
      by blast
    then show "\<exists>entry \<in> set window. sky_of entry = Inl IndexError"
      using sky_of_weather_list [of entry "[]"] by auto
  qed
  have branch: "sky_branch (JArr window) = Inl IndexError"
    if "\<exists>entry \<in> set window. getitem entry ''weather'' = Inr (JArr [])"
    using fails [OF that] by (simp add: sky_branch_unfold)
  have page: "run w key place days ''Sky'' =
      \<lparr>outputs = header place days ''Sky'', uncaught = Some IndexError,
       after = snd (get_data w key place days)\<rparr>"
    if "\<exists>entry \<in> set window. getitem entry ''weather'' = Inr (JArr [])"
      "place \<noteq> []" "fst (get_data w key place days) = Inr (JArr window)"
    using run_sky_raises [OF that(2,3) branch [OF that(1)]] by simp
  have total: "\<exists>sky. comprehension sky_of window = Inr sky"
    if "\<forall>entry \<in> set window. getitem entry ''weather'' \<noteq> Inr (JArr [])"
  proof (rule comprehension_total)
    show "\<forall>entry \<in> set window. \<exists>c. sky_of entry = Inr c"
      using assms that sky_of_shaped_nonempty by blast
  qed
  have only: "\<forall>entry \<in> set window. getitem entry ''weather'' \<noteq> Inr (JArr [])"
    if "\<exists>sky. comprehension sky_of window = Inr sky"
    using that fails by fastforce
  from fails branch page total only show ?thesis by blast
qed

theorem sky_empty_weather_list_witness:
  "run (world_answering (Inr (forecast_response 200 clear_then_nothing))) (Some ''k'') ''Tokyo'' 1 ''Sky'' =
     \<lparr>outputs = [Title ''Weather Forcast For The Next Days'', Subheader ''Sky'' 1 ''Tokyo''],
      uncaught = Some IndexError,
      after = snd (get_data (world_answering (Inr (forecast_response 200 clear_then_nothing)))
                     (Some ''k'') ''Tokyo'' 1)\<rparr>
   \<and> (\<exists>sky. comprehension sky_of clear_then_mist = Inr sky)"
proof -
  have shape: "\<forall>entry \<in> set clear_then_nothing. \<exists>ds. getitem entry ''weather'' = Inr (JArr ds)
             \<and> (\<forall>d \<in> set ds. \<exists>c. getitem d ''main'' = Inr c)"
    by (simp add: clear_then_nothing_def forecast_entry_def descriptor_def)
  have empty: "\<exists>entry \<in> set clear_then_nothing. getitem entry ''weather'' = Inr (JArr [])"
    by (simp add: clear_then_nothing_def forecast_entry_def)
  have fetched:
    "fst (get_data (world_answering (Inr (forecast_response 200 clear_then_nothing)))
           (Some ''k'') ''Tokyo'' 1) = Inr (JArr clear_then_nothing)"
    by (simp add: get_data_def requests_get_def response_json_def world_answering_def
        forecast_response_def forecast_body_def clear_then_nothing_def slice_to_def Let_def)
  have shape': "\<forall>entry \<in> set clear_then_mist. \<exists>ds. getitem entry ''weather'' = Inr (JArr ds)
             \<and> (\<forall>d \<in> set ds. \<exists>c. getitem d ''main'' = Inr c)"
    by (simp add: clear_then_mist_def forecast_entry_def descriptor_def)
  have nonempty: "\<forall>entry \<in> set clear_then_mist. getitem entry ''weather'' \<noteq> Inr (JArr [])"
    by (simp add: clear_then_mist_def forecast_entry_def)
  from sky_empty_weather_list [OF shape, of "''Tokyo''"
      "world_answering (Inr (forecast_response 200 clear_then_nothing))" "Some ''k''" 1]
    empty fetched
  have crash: "run (world_answering (Inr (forecast_response 200 clear_then_nothing))) (Some ''k'') ''Tokyo'' 1 ''Sky'' =
     \<lparr>outputs = header ''Tokyo'' 1 ''Sky'', uncaught = Some IndexError,
      after = snd (get_data (world_answering (Inr (forecast_response 200 clear_then_nothing)))
                     (Some ''k'') ''Tokyo'' 1)\<rparr>"
    by blast
  from sky_empty_weather_list [OF shape'] nonempty
  have "\<exists>sky. comprehension sky_of clear_then_mist = Inr sky"
    by blast
  with crash show ?thesis by (simp add: header_def)
qed

end
